theory Spec2Isabelle
  imports Complex_Main "HOL-Library.Word" "HOL-Library.Signed_Division"
begin

section \<open>Go values shared by the watchtower tasks\<close>

text \<open>
  The watchtower tasks are Go methods. Their machine integers are modelled as words
  (\<open>uint64\<close>), so that \<open>+\<close>, \<open>-\<close> and \<open>*\<close> wrap as in Go. Values of
  \<open>time.Time\<close> and \<open>time.Duration\<close> are modelled as whole seconds in \<open>int\<close>: every
  time the tasks handle is built with \<open>time.Unix(sec, 0)\<close> from an on-chain timestamp,
  or by adding whole-second durations to such a time. Go keeps a duration as an
  \<open>int64\<close> count of nanoseconds, so the model is exact while a span stays below
  \<open>2^63\<close> nanoseconds (about 292 years); beyond that Go saturates and the model does not.

  A Go \<open>error\<close> is a value of the datatype \<open>error\<close>; a function returning
  \<open>(T, error)\<close> becomes a function into \<open>error + T\<close> and one returning only
  \<open>error\<close> a function into \<open>error option\<close> (\<open>None\<close> is \<open>nil\<close>).
\<close>

type_synonym uint64 = "64 word"
type_synonym bytes = "8 word list"
type_synonym address = "160 word"
type_synonym path = string

datatype error =
    Errorf string
  | Wrapf string error
  | joinError "error list"
  | WaitingForFinality int uint64 uint64 uint64 uint64

text \<open>
  \<open>Errorf msg\<close> is \<open>fmt.Errorf(msg)\<close> (also an error handed back by a collaborator),
  \<open>Wrapf msg err\<close> is \<open>fmt.Errorf(msg + ": %w", err)\<close>, \<open>joinError\<close> is what
  \<open>errors.Join\<close> builds, and \<open>WaitingForFinality endTime slot epoch required finalized\<close>
  is the error of \<open>getSnapshotConsensusBlock\<close> whose text reads
  "Snapshot end time = ..., slot (epoch) = ... (...)... waiting until epoch ... is
  finalized (currently ...).".
\<close>

text \<open>\<open>errors.Join\<close>: nil values are discarded, and the result is nil when all are.\<close>

definition errors_Join :: "error option list \<Rightarrow> error option" where
  "errors_Join errs =
     (case List.map_filter id errs of
        [] \<Rightarrow> None
      | e # es \<Rightarrow> Some (joinError (e # es)))"

text \<open>
  What running a piece of Go code can end in, besides not returning: it returns a
  value, it panics (an integer division by zero, a buffer too small), or it converts a
  floating-point number that the target integer type cannot hold, whose result the
  language leaves to the implementation.
\<close>

datatype 'a outcome = Returns 'a | Panics | ImplementationDependent

section \<open>Chain state read by the tasks\<close>

record beacon_config =
  GenesisTime :: uint64
  SecondsPerSlot :: uint64
  SlotsPerEpoch :: uint64

record network_state =
  IntervalStart :: int
  IntervalDuration :: int
  RewardIndex :: uint64
  BeaconConfig :: beacon_config
  BeaconSlotNumber :: uint64
  ElBlockNumber :: uint64
  SubmitPricesEnabled :: bool
  LatestReportablePricesBlock :: uint64
  PricesBlock :: uint64
  OracleDaoMemberDetails :: "address list"

datatype beacon_block_lookup =
    BlockError error
  | BlockMissing
  | BlockFound uint64

text \<open>
  \<open>bc.GetBeaconBlock(slot)\<close> returns \<open>(block, exists, err)\<close>: \<open>BlockError err\<close>,
  \<open>BlockMissing\<close> (\<open>exists\<close> is false) or \<open>BlockFound n\<close> with
  \<open>n = block.ExecutionBlockNumber\<close>. \<open>GetBeaconHead\<close> gives the head's
  \<open>FinalizedEpoch\<close>.
\<close>

record beacon_client =
  GetBeaconHead :: "error + uint64"
  GetBeaconBlock :: "uint64 \<Rightarrow> beacon_block_lookup"

record header =
  Number :: uint64
  Time :: uint64

section \<open>Interval detection (\<open>SubmitRewardsTree_Stateless.Run\<close>, lines 90-103)\<close>

text \<open>
  \<open>stateTime := genesisTime.Add(time.Duration(SecondsPerSlot*BeaconSlotNumber) * time.Second)\<close>
  with \<open>genesisTime := time.Unix(int64(GenesisTime), 0)\<close>.
\<close>

definition stateTime :: "network_state \<Rightarrow> int" where
  "stateTime state =
     sint (GenesisTime (BeaconConfig state))
       + sint (SecondsPerSlot (BeaconConfig state) * BeaconSlotNumber state)"

text \<open>
  \<open>timeSinceStart := stateTime.Sub(startTime); intervalsPassed := timeSinceStart / intervalTime\<close>.
  Go's integer division truncates towards zero (\<open>sdiv\<close>) and panics on a zero divisor.
  No line of \<open>Run\<close> tests \<open>intervalTime\<close> before dividing.
\<close>

definition intervalsPassed :: "int \<Rightarrow> int \<Rightarrow> int \<Rightarrow> int outcome" where
  "intervalsPassed now startTime intervalTime =
     (let timeSinceStart = now - startTime
      in if intervalTime = 0 then Panics else Returns (timeSinceStart sdiv intervalTime))"

section \<open>Snapshot block resolution (\<open>getSnapshotConsensusBlock\<close>)\<close>

text \<open>
  \<open>targetSlot := uint64(math.Ceil(totalTimespan.Seconds() / float64(SecondsPerSlot)))\<close>.
  For a span of whole seconds inside the range of a duration the floating-point quotient
  rounds to the same ceiling as the exact one, which is \<open>- (- a div b)\<close> on integers. A
  zero \<open>SecondsPerSlot\<close> gives an infinity or a NaN, and a negative or too large
  ceiling does not fit \<open>uint64\<close>: Go leaves these conversions to the implementation.
\<close>

definition ceilSlot :: "int \<Rightarrow> uint64 \<Rightarrow> uint64 outcome" where
  "ceilSlot totalTimespan secondsPerSlot =
     (if secondsPerSlot = 0 then ImplementationDependent
      else let c = - (- totalTimespan div uint secondsPerSlot)
           in if 0 \<le> c \<and> c < 2 ^ 64 then Returns (word_of_int c)
              else ImplementationDependent)"

text \<open>
  The loop \<open>for { block, exists, err := GetBeaconBlock(targetSlot); ... targetSlot-- }\<close>.
  It has no bound, and \<open>targetSlot\<close> is a \<open>uint64\<close> that wraps below zero, so the
  loop is a partial function: \<open>None\<close> means it never returns.
\<close>

partial_function (option) walkBack ::
    "(uint64 \<Rightarrow> beacon_block_lookup) \<Rightarrow> uint64 \<Rightarrow> (error + uint64 \<times> uint64) option" where
  "walkBack getBeaconBlock targetSlot =
     (case getBeaconBlock targetSlot of
        BlockError err \<Rightarrow> Some (Inl (Wrapf ''error getting Beacon block'' err))
      | BlockMissing \<Rightarrow> walkBack getBeaconBlock (targetSlot - 1)
      | BlockFound executionBlockNumber \<Rightarrow> Some (Inr (targetSlot, executionBlockNumber)))"

declare walkBack.simps [code]

definition getSnapshotConsensusBlock ::
    "beacon_client \<Rightarrow> int \<Rightarrow> beacon_config \<Rightarrow> (error + uint64 \<times> uint64) outcome option" where
  "getSnapshotConsensusBlock bc endTime eth2Config =
     (case GetBeaconHead bc of
        Inl err \<Rightarrow> Some (Returns (Inl (Wrapf ''error getting Beacon head'' err)))
      | Inr finalizedEpoch \<Rightarrow>
          (case ceilSlot (endTime - sint (GenesisTime eth2Config)) (SecondsPerSlot eth2Config) of
             Panics \<Rightarrow> Some Panics
           | ImplementationDependent \<Rightarrow> Some ImplementationDependent
           | Returns targetSlot0 \<Rightarrow>
               if SlotsPerEpoch eth2Config = 0 then Some Panics
               else
                 let targetSlotEpoch = targetSlot0 div SlotsPerEpoch eth2Config;
                     targetSlot = targetSlotEpoch * SlotsPerEpoch eth2Config
                                    + (SlotsPerEpoch eth2Config - 1);
                     requiredEpoch = targetSlotEpoch + 1
                 in if finalizedEpoch < requiredEpoch
                    then Some (Returns (Inl (WaitingForFinality endTime targetSlot
                                               targetSlotEpoch requiredEpoch finalizedEpoch)))
                    else map_option Returns (walkBack (GetBeaconBlock bc) targetSlot)))"



section \<open>The cached rewards file (\<open>isExistingFileValid\<close>)\<close>

record RewardsFileHeader =
  Index :: uint64
  IntervalsPassed :: uint64
  MerkleRoot :: string

record rewards_file =
  GetHeader :: RewardsFileHeader
  MinipoolPerformanceFileCID :: string

text \<open>
  A path of the local file system: nothing is there (\<open>os.Stat\<close> fails with an error
  for which \<open>os.IsNotExist\<close> holds), something is there that \<open>os.ReadFile\<close> cannot
  read, or a file with its bytes.
\<close>

datatype file_entry = NotExist | ReadFails error | Holds bytes

record artifact_store =
  files :: "path \<Rightarrow> file_entry"
  DeserializeRewardsFile :: "bytes \<Rightarrow> error + rewards_file"

definition isExistingFileValid :: "artifact_store \<Rightarrow> path \<Rightarrow> uint64 \<Rightarrow> bool" where
  "isExistingFileValid store rewardsTreePath intervalsPassed' =
     (case files store rewardsTreePath of
        NotExist \<Rightarrow> False
      | ReadFails err \<Rightarrow> False
      | Holds fileBytes \<Rightarrow>
          (case DeserializeRewardsFile store fileBytes of
             Inl err \<Rightarrow> False
           | Inr proofWrapper \<Rightarrow>
               if IntervalsPassed (GetHeader proofWrapper) \<noteq> intervalsPassed' then False
               else True))"

section \<open>Effects of a task\<close>

text \<open>
  What a task does to the world is recorded as a list of events, in program order: lines
  written to the two loggers, files written, and the calls that hand work to the
  distribution network and to the transaction layer. The bodies of
  \<open>uploadFileToWeb3Storage\<close>, \<open>submitRewardsSnapshot\<close>, \<open>submitRplPrice\<close> and the
  five \<open>update...\<close> functions only prepare and send through those collaborators; the
  model records each call as an event and takes its result from the environment. A call of
  one of the \<open>submit...\<close> or \<open>update...\<close> functions is an on-chain submission attempt.
\<close>

datatype l2_target = Optimism | Polygon | Arbitrum | ZkSyncEra | Base

datatype event =
    LogInfo string
  | LogError error
  | WriteFile path bytes
  | Upload bytes path
  | SubmitSnapshot int uint64 uint64 string int
  | SubmitPrice uint64 int
  | UpdateRate l2_target uint64

definition isSubmission :: "event \<Rightarrow> bool" where
  "isSubmission ev =
     (case ev of
        SubmitSnapshot index consensusBlock executionBlock cid n \<Rightarrow> True
      | SubmitPrice blockNumber rplPrice \<Rightarrow> True
      | UpdateRate target blockNumber \<Rightarrow> True
      | LogInfo msg \<Rightarrow> False
      | LogError err \<Rightarrow> False
      | WriteFile p b \<Rightarrow> False
      | Upload b p \<Rightarrow> False)"

text \<open>
  A run of fallible steps: the events so far, and either the error that ended the run
  or a value. \<open>andThen\<close> is Go's \<open>x, err := f(); if err != nil { return err }\<close>.
\<close>

type_synonym 'a step = "event list \<times> (error + 'a)"

definition andThen :: "'a step \<Rightarrow> ('a \<Rightarrow> 'b step) \<Rightarrow> 'b step" where
  "andThen m f =
     (case m of
        (evs, Inl err) \<Rightarrow> (evs, Inl err)
      | (evs, Inr x) \<Rightarrow> (case f x of (evs', r) \<Rightarrow> (evs @ evs', r)))"

definition attempt :: "string \<Rightarrow> error + 'a \<Rightarrow> 'a step" where
  "attempt msg r = (case r of Inl err \<Rightarrow> ([], Inl (Wrapf msg err)) | Inr x \<Rightarrow> ([], Inr x))"

definition attemptDo :: "string \<Rightarrow> error option \<Rightarrow> unit step" where
  "attemptDo msg r = (case r of Some err \<Rightarrow> ([], Inl (Wrapf msg err)) | None \<Rightarrow> ([], Inr ()))"

definition emit :: "event \<Rightarrow> unit step" where
  "emit ev = ([ev], Inr ())"

section \<open>The on-chain submission record\<close>

text \<open>
  \<open>rp.Query\<close> runs a batched read that can fail; \<open>Storage.GetBool\<close> reads the flag
  stored under \<open>crypto.Keccak256Hash(parts...)\<close>. The hash is taken of the parts
  concatenated, and the model addresses the flag by that concatenation.
\<close>

record chain_storage =
  Query :: "error option"
  GetBool :: "bytes \<Rightarrow> bool"

definition bytesOf :: "string \<Rightarrow> bytes" where
  "bytesOf s = map of_char s"

text \<open>\<open>common.Address.Bytes()\<close>: the 20 bytes, most significant first.\<close>

definition addressBytes :: "address \<Rightarrow> bytes" where
  "addressBytes a = map (\<lambda>i. of_nat (unat a div 256 ^ (19 - i))) [0..<20]"

text \<open>
  \<open>x.FillBytes(buf)\<close> for a 32-byte buffer: the absolute value of \<open>x\<close>, big-endian and
  zero-extended; it panics when the value needs more than 32 bytes.
\<close>

definition FillBytes :: "nat \<Rightarrow> bytes outcome" where
  "FillBytes x =
     (if x < 256 ^ 32 then Returns (map (\<lambda>i. of_nat (x div 256 ^ (31 - i))) [0..<32])
      else Panics)"

definition probe :: "chain_storage \<Rightarrow> bytes \<Rightarrow> error + bool" where
  "probe chain key = (case Query chain of Some err \<Rightarrow> Inl err | None \<Rightarrow> Inr (GetBool chain key))"

text \<open>\<open>hasSubmittedTree\<close>: \<open>index\<close> comes from a \<open>uint64\<close>, so \<open>FillBytes\<close> has room.\<close>

definition hasSubmittedTree :: "chain_storage \<Rightarrow> address \<Rightarrow> uint64 \<Rightarrow> (error + bool) outcome" where
  "hasSubmittedTree chain nodeAddress index =
     (case FillBytes (unat index) of
        Returns indexBuffer \<Rightarrow>
          Returns (probe chain (bytesOf ''rewards.snapshot.submitted.node''
                                  @ addressBytes nodeAddress @ indexBuffer))
      | Panics \<Rightarrow> Panics
      | ImplementationDependent \<Rightarrow> ImplementationDependent)"

section \<open>The rewards tree task (\<open>SubmitRewardsTree_Stateless\<close>)\<close>

text \<open>
  The collaborators a task gets from its service provider: the beacon client, the
  execution client's \<open>HeaderByNumber\<close>, the wallet's address and the chain storage.
  The fields \<open>cfg\<close>, \<open>w\<close>, \<open>rp\<close>, \<open>ec\<close> and \<open>bc\<close> of a task are taken to hold
  these services wherever the task uses them. (\<open>Run\<close> assigns them from the provider at
  lines 131-136, the price task inside its goroutine; what they hold before that is set
  by code outside these files.)
\<close>

record services =
  beacon :: beacon_client
  HeaderByNumber :: "int \<Rightarrow> error + header"
  GetAddress :: address
  chain :: chain_storage

record rewards_env = services +
  RewardsMode_Generate :: bool
  GetStateForSlot :: "uint64 \<Rightarrow> error + network_state"
  NewRewardsPool :: "error option"
  GetRewardsTreePath :: "uint64 \<Rightarrow> path"
  GetMinipoolPerformancePath :: "uint64 \<Rightarrow> path"
  RewardsTreeIpfsExtension :: string
  artifacts :: artifact_store
  uploadFileToWeb3Storage :: "bytes \<Rightarrow> path \<Rightarrow> error + string"
  submitRewardsSnapshot :: "int \<Rightarrow> uint64 \<Rightarrow> uint64 \<Rightarrow> RewardsFileHeader \<Rightarrow> string \<Rightarrow> int \<Rightarrow> error option"
  GetBestApiClient :: "error option"
  NewNetworkStateManager :: "error option"
  NewTreeGenerator :: "error option"
  GenerateTree :: "uint64 \<Rightarrow> uint64 \<Rightarrow> uint64 \<Rightarrow> error + rewards_file"
  SerializeMinipoolPerformanceFile :: "rewards_file \<Rightarrow> error + bytes"
  Serialize :: "rewards_file \<Rightarrow> error + bytes"
  os_WriteFile :: "path \<Rightarrow> bytes \<Rightarrow> error option"

text \<open>
  What one call of \<open>Run\<close> did: the error it returned (\<open>None\<close> is \<open>nil\<close>), the events
  before it returned, and, when it started the generation goroutine, the events of that
  goroutine run to its end.
\<close>

record run_report =
  returned :: "error option"
  foreground :: "event list"
  background :: "event list option"

definition returnsAtOnce :: "error option \<Rightarrow> run_report outcome option" where
  "returnsAtOnce r = Some (Returns \<lparr>returned = r, foreground = [], background = None\<rparr>)"

definition returnsAfter :: "unit step \<Rightarrow> run_report outcome option" where
  "returnsAfter m =
     (case m of
        (evs, Inl err) \<Rightarrow> Some (Returns \<lparr>returned = Some err, foreground = evs, background = None\<rparr>)
      | (evs, Inr u) \<Rightarrow> Some (Returns \<lparr>returned = None, foreground = evs, background = None\<rparr>))"

text \<open>\<open>handleError\<close> prints to the error log (and clears the running flag).\<close>

definition handleError :: "error \<Rightarrow> event list" where
  "handleError err =
     [LogError (Wrapf ''[Merkle Tree]'' err),
      LogError (Errorf ''*** Rewards tree generation failed. ***'')]"

definition generateTreeImpl ::
    "rewards_env \<Rightarrow> int \<Rightarrow> bool \<Rightarrow> uint64 \<Rightarrow> uint64 \<Rightarrow> uint64 \<Rightarrow> path \<Rightarrow> path \<Rightarrow> path \<Rightarrow> path
       \<Rightarrow> unit step" where
  "generateTreeImpl env n nodeTrusted currentIndex snapshotBeaconBlock elBlockIndex
       rewardsTreePath compressedRewardsTreePath minipoolPerformancePath
       compressedMinipoolPerformancePath =
     andThen (attemptDo ''error creating network state manager'' (NewNetworkStateManager env)) (\<lambda>_.
     andThen (attempt ''could not get network state'' (GetStateForSlot env snapshotBeaconBlock)) (\<lambda>state.
     andThen (attemptDo ''error creating Merkle tree generator'' (NewTreeGenerator env)) (\<lambda>_.
     andThen (attempt ''error generating Merkle tree''
                (GenerateTree env currentIndex snapshotBeaconBlock (word_of_int n))) (\<lambda>rewardsFile.
     andThen (attempt ''error serializing minipool performance file into JSON''
                (SerializeMinipoolPerformanceFile env rewardsFile)) (\<lambda>minipoolPerformanceBytes.
     andThen (emit (WriteFile minipoolPerformancePath minipoolPerformanceBytes)) (\<lambda>_.
     andThen (attemptDo ''error saving minipool performance file''
                (os_WriteFile env minipoolPerformancePath minipoolPerformanceBytes)) (\<lambda>_.
     andThen (if nodeTrusted
              then andThen (emit (Upload minipoolPerformanceBytes compressedMinipoolPerformancePath)) (\<lambda>_.
                   andThen (attempt ''error uploading minipool performance file to Web3.Storage''
                              (uploadFileToWeb3Storage env minipoolPerformanceBytes
                                 compressedMinipoolPerformancePath)) (\<lambda>minipoolPerformanceCid.
                   ([], Inr (rewardsFile\<lparr>MinipoolPerformanceFileCID := minipoolPerformanceCid\<rparr>))))
              else ([], Inr (rewardsFile\<lparr>MinipoolPerformanceFileCID := ''---''\<rparr>))) (\<lambda>rewardsFile'.
     andThen (attempt ''error serializing proof wrapper into JSON'' (Serialize env rewardsFile')) (\<lambda>wrapperBytes.
     andThen (emit (WriteFile rewardsTreePath wrapperBytes)) (\<lambda>_.
     andThen (attemptDo ''error saving rewards tree file''
                (os_WriteFile env rewardsTreePath wrapperBytes)) (\<lambda>_.
     if nodeTrusted
     then andThen (emit (Upload wrapperBytes compressedRewardsTreePath)) (\<lambda>_.
          andThen (attempt ''error uploading Merkle tree to Web3.Storage''
                     (uploadFileToWeb3Storage env wrapperBytes compressedRewardsTreePath)) (\<lambda>cid.
          andThen (emit (SubmitSnapshot (sint currentIndex) snapshotBeaconBlock elBlockIndex cid n)) (\<lambda>_.
          attemptDo ''error submitting rewards snapshot''
            (submitRewardsSnapshot env (sint currentIndex) snapshotBeaconBlock elBlockIndex
               (GetHeader rewardsFile') cid n))))
     else ([], Inr ()))))))))))))"

text \<open>The goroutine that \<open>generateTree\<close> starts, run to its end.\<close>

definition generateTree ::
    "rewards_env \<Rightarrow> int \<Rightarrow> bool \<Rightarrow> uint64 \<Rightarrow> uint64 \<Rightarrow> uint64 \<Rightarrow> path \<Rightarrow> path \<Rightarrow> path \<Rightarrow> path
       \<Rightarrow> event list" where
  "generateTree env n nodeTrusted currentIndex snapshotBeaconBlock elBlockIndex
       rewardsTreePath compressedRewardsTreePath minipoolPerformancePath
       compressedMinipoolPerformancePath =
     (case GetBestApiClient env of
        Some err \<Rightarrow> handleError err
      | None \<Rightarrow>
          (case generateTreeImpl env n nodeTrusted currentIndex snapshotBeaconBlock elBlockIndex
                  rewardsTreePath compressedRewardsTreePath minipoolPerformancePath
                  compressedMinipoolPerformancePath of
             (evs, Inl err) \<Rightarrow> evs @ handleError err
           | (evs, Inr u) \<Rightarrow> evs))"

text \<open>
  Lines 150-194 of \<open>Run\<close>: an existing file that is still valid is reused; a trusted
  node then asks the chain whether it has submitted the tree for this interval, and
  uploads and submits the stored file when it has not.
\<close>

definition resubmitExisting ::
    "rewards_env \<Rightarrow> int \<Rightarrow> uint64 \<Rightarrow> uint64 \<Rightarrow> uint64 \<Rightarrow> path \<Rightarrow> path \<Rightarrow> unit step" where
  "resubmitExisting env n currentIndex snapshotBeaconBlock elBlockIndex rewardsTreePath
       compressedRewardsTreePath =
     andThen (attempt ''error reading rewards tree file''
                (case files (artifacts env) rewardsTreePath of
                   Holds wrapperBytes \<Rightarrow> Inr wrapperBytes
                 | ReadFails err \<Rightarrow> Inl err
                 | NotExist \<Rightarrow> Inl (Errorf ''no such file or directory''))) (\<lambda>wrapperBytes.
     andThen (attempt ''error deserializing rewards tree file''
                (DeserializeRewardsFile (artifacts env) wrapperBytes)) (\<lambda>proofWrapper.
     andThen (emit (Upload wrapperBytes compressedRewardsTreePath)) (\<lambda>_.
     andThen (attempt ''error uploading Merkle tree to Web3.Storage''
                (uploadFileToWeb3Storage env wrapperBytes compressedRewardsTreePath)) (\<lambda>cid.
     andThen (emit (SubmitSnapshot (uint currentIndex) snapshotBeaconBlock elBlockIndex cid n)) (\<lambda>_.
     attemptDo ''error submitting rewards snapshot''
       (submitRewardsSnapshot env (uint currentIndex) snapshotBeaconBlock elBlockIndex
          (GetHeader proofWrapper) cid n))))))"

text \<open>Lines 118-201 of \<open>Run\<close>, from the check of the running flag on.\<close>

definition runGuarded ::
    "rewards_env \<Rightarrow> bool \<Rightarrow> bool \<Rightarrow> network_state \<Rightarrow> int \<Rightarrow> uint64 \<Rightarrow> uint64
       \<Rightarrow> run_report outcome option" where
  "runGuarded env isRunning nodeTrusted state n snapshotBeaconBlock elBlockIndex =
     (let currentIndex = RewardIndex state
      in if isRunning then returnsAtOnce None
         else
           (case NewRewardsPool env of
              Some err \<Rightarrow>
                Some (Returns \<lparr>returned = None,
                                foreground = handleError (Wrapf ''error creating Rewards Pool binding'' err),
                                background = None\<rparr>)
            | None \<Rightarrow>
                let rewardsTreePath = GetRewardsTreePath env currentIndex;
                    compressedRewardsTreePath = rewardsTreePath @ RewardsTreeIpfsExtension env;
                    minipoolPerformancePath = GetMinipoolPerformancePath env currentIndex;
                    compressedMinipoolPerformancePath =
                      minipoolPerformancePath @ RewardsTreeIpfsExtension env
                in if isExistingFileValid (artifacts env) rewardsTreePath (word_of_int n)
                   then
                     (if \<not> nodeTrusted then returnsAtOnce None
                      else
                        (case hasSubmittedTree (chain env) (GetAddress env) currentIndex of
                           Panics \<Rightarrow> Some Panics
                         | ImplementationDependent \<Rightarrow> Some ImplementationDependent
                         | Returns (Inl err) \<Rightarrow>
                             returnsAtOnce (Some (Wrapf
                               ''error checking if Merkle tree submission has already been processed'' err))
                         | Returns (Inr hasSubmitted) \<Rightarrow>
                             if hasSubmitted then returnsAtOnce None
                             else returnsAfter
                                    (resubmitExisting env n currentIndex snapshotBeaconBlock
                                       elBlockIndex rewardsTreePath compressedRewardsTreePath)))
                   else
                     Some (Returns \<lparr>returned = None, foreground = [],
                             background = Some (generateTree env n nodeTrusted currentIndex
                               snapshotBeaconBlock elBlockIndex rewardsTreePath
                               compressedRewardsTreePath minipoolPerformancePath
                               compressedMinipoolPerformancePath)\<rparr>)))"

text \<open>Lines 87-116 of \<open>Run\<close>: the rewards checkpoint and the snapshot block.\<close>

definition runCheckpoint ::
    "rewards_env \<Rightarrow> bool \<Rightarrow> bool \<Rightarrow> network_state \<Rightarrow> run_report outcome option" where
  "runCheckpoint env isRunning nodeTrusted state =
     (let startTime = IntervalStart state;
          intervalTime = IntervalDuration state
      in case intervalsPassed (stateTime state) startTime intervalTime of
           Panics \<Rightarrow> Some Panics
         | ImplementationDependent \<Rightarrow> Some ImplementationDependent
         | Returns n \<Rightarrow>
             let endTime = startTime + intervalTime * n
             in if n = 0 then returnsAtOnce None
                else
                  (case getSnapshotConsensusBlock (beacon env) endTime (BeaconConfig state) of
                     None \<Rightarrow> None
                   | Some Panics \<Rightarrow> Some Panics
                   | Some ImplementationDependent \<Rightarrow> Some ImplementationDependent
                   | Some (Returns (Inl err)) \<Rightarrow> returnsAtOnce (Some err)
                   | Some (Returns (Inr (snapshotBeaconBlock, elBlockNumber))) \<Rightarrow>
                       (case HeaderByNumber env (sint elBlockNumber) of
                          Inl err \<Rightarrow> returnsAtOnce (Some err)
                        | Inr snapshotElBlockHeader \<Rightarrow>
                            runGuarded env isRunning nodeTrusted state n snapshotBeaconBlock
                              (Number snapshotElBlockHeader))))"

definition Run ::
    "rewards_env \<Rightarrow> bool \<Rightarrow> bool \<Rightarrow> network_state \<Rightarrow> uint64 \<Rightarrow> run_report outcome option" where
  "Run env isRunning nodeTrusted state beaconSlot =
     (if \<not> nodeTrusted
      then
        (if \<not> RewardsMode_Generate env then returnsAtOnce None
         else
           (case GetStateForSlot env beaconSlot of
              Inl err \<Rightarrow> returnsAtOnce (Some (Wrapf ''error getting state for beacon slot'' err))
            | Inr state' \<Rightarrow> runCheckpoint env isRunning nodeTrusted state'))
      else runCheckpoint env isRunning nodeTrusted state)"

section \<open>The price task (\<open>SubmitRplPrice\<close>)\<close>

definition SubmissionKey :: string where
  "SubmissionKey = ''network.prices.submitted.node.key''"

definition BlocksPerTurn :: uint64 where
  "BlocksPerTurn = 75"

record transact_opts =
  From :: address
  Value :: int
  GasFeeCap :: int
  GasTipCap :: int
  GasLimit :: uint64

text \<open>
  \<open>MessengerAddress\<close> is the configured address of a relay target's messenger
  contract (empty: the target is skipped), \<open>NewMessenger\<close> the result of creating its
  binding, \<open>IsRateStale\<close> the flag the batched read brings back and \<open>update\<close> the
  target's \<open>updateOptimism\<close>, \<open>updatePolygon\<close>, \<open>updateArbitrum\<close>,
  \<open>updateZkSyncEra\<close> or \<open>updateBase\<close>, which gets the shared \<open>opts\<close> and may
  change them.
\<close>

record price_env = services +
  MessengerAddress :: "l2_target \<Rightarrow> string"
  NewMessenger :: "l2_target \<Rightarrow> error option"
  GetTransactor :: "error + transact_opts"
  QueryStale :: "error option"
  IsRateStale :: "l2_target \<Rightarrow> bool"
  update :: "l2_target \<Rightarrow> uint64 \<Rightarrow> transact_opts \<Rightarrow> error option \<times> transact_opts"
  getRplTwap :: "uint64 \<Rightarrow> error + int"
  submitRplPrice :: "uint64 \<Rightarrow> int \<Rightarrow> error option"

text \<open>
  \<open>hasSubmittedBlockPrices\<close> and \<open>hasSubmittedSpecificBlockPrices\<close>. The block number
  goes through \<open>big.NewInt(int64(blockNumber))\<close>, and \<open>FillBytes\<close> writes the absolute
  value. The second key also holds the price.
\<close>

definition hasSubmittedBlockPrices ::
    "chain_storage \<Rightarrow> address \<Rightarrow> uint64 \<Rightarrow> (error + bool) outcome" where
  "hasSubmittedBlockPrices storage nodeAddress blockNumber =
     (case FillBytes (nat \<bar>sint blockNumber\<bar>) of
        Returns blockNumberBuf \<Rightarrow>
          Returns (probe storage (bytesOf SubmissionKey @ addressBytes nodeAddress @ blockNumberBuf))
      | Panics \<Rightarrow> Panics
      | ImplementationDependent \<Rightarrow> ImplementationDependent)"

definition hasSubmittedSpecificBlockPrices ::
    "chain_storage \<Rightarrow> address \<Rightarrow> uint64 \<Rightarrow> int \<Rightarrow> (error + bool) outcome" where
  "hasSubmittedSpecificBlockPrices storage nodeAddress blockNumber rplPrice =
     (case FillBytes (nat \<bar>sint blockNumber\<bar>) of
        Returns blockNumberBuf \<Rightarrow>
          (case FillBytes (nat \<bar>rplPrice\<bar>) of
             Returns rplPriceBuf \<Rightarrow>
               Returns (probe storage (bytesOf SubmissionKey @ addressBytes nodeAddress
                                        @ blockNumberBuf @ rplPriceBuf))
           | Panics \<Rightarrow> Panics
           | ImplementationDependent \<Rightarrow> ImplementationDependent)
      | Panics \<Rightarrow> Panics
      | ImplementationDependent \<Rightarrow> ImplementationDependent)"

definition priceHandleError :: "error \<Rightarrow> event list" where
  "priceHandleError err = [LogError err, LogError (Errorf ''*** Price report failed. ***'')]"

text \<open>
  The goroutine of \<open>SubmitRplPrice.Run\<close> (lines 132-197), run to its end. Lines of the
  info log are not recorded, but for the one that is all its branch does: the note that
  out-of-date prices were submitted before.
\<close>

definition priceReport :: "price_env \<Rightarrow> uint64 \<Rightarrow> event list outcome" where
  "priceReport env blockNumber =
     (case getRplTwap env blockNumber of
        Inl err \<Rightarrow> Returns (priceHandleError (Wrapf ''[Price Report]'' err))
      | Inr rplPrice \<Rightarrow>
          (case hasSubmittedSpecificBlockPrices (chain env) (GetAddress env) blockNumber rplPrice of
             Panics \<Rightarrow> Panics
           | ImplementationDependent \<Rightarrow> ImplementationDependent
           | Returns (Inl err) \<Rightarrow> Returns (priceHandleError (Wrapf ''[Price Report]'' err))
           | Returns (Inr hasSubmittedSpecific) \<Rightarrow>
               if hasSubmittedSpecific then Returns []
               else
                 (case hasSubmittedBlockPrices (chain env) (GetAddress env) blockNumber of
                    Panics \<Rightarrow> Panics
                  | ImplementationDependent \<Rightarrow> ImplementationDependent
                  | Returns (Inl err) \<Rightarrow> Returns (priceHandleError (Wrapf ''[Price Report]'' err))
                  | Returns (Inr hasSubmitted) \<Rightarrow>
                      Returns
                        ((if hasSubmitted
                          then [LogInfo ''Have previously submitted out-of-date prices, trying again...'']
                          else [])
                         @ [SubmitPrice blockNumber rplPrice]
                         @ (case submitRplPrice env blockNumber rplPrice of
                              Some err \<Rightarrow>
                                priceHandleError (Wrapf ''[Price Report] could not submit RPL price'' err)
                            | None \<Rightarrow> [])))))"

subsection \<open>Relaying the price to the L2 messengers (\<open>updateL2Prices\<close>)\<close>

definition allTargets :: "l2_target list" where
  "allTargets = [Optimism, Polygon, Arbitrum, ZkSyncEra, Base]"

text \<open>
  A messenger is non-nil when its address is configured; creating a binding appends
  its error, nil or not, to \<open>errs\<close>.
\<close>

definition configured :: "price_env \<Rightarrow> l2_target \<Rightarrow> bool" where
  "configured env target = (MessengerAddress env target \<noteq> [])"

definition bindingErrors :: "price_env \<Rightarrow> error option list" where
  "bindingErrors env = map (NewMessenger env) (filter (configured env) allTargets)"

text \<open>A stale flag is read only for a messenger that is there; it is false otherwise.\<close>

definition rateStale :: "price_env \<Rightarrow> l2_target \<Rightarrow> bool" where
  "rateStale env target = (configured env target \<and> IsRateStale env target)"

text \<open>
  \<open>for i := uint64(0); i < count; i++ { if members[i].Address == opts.From { index = i; break } }\<close>
  with \<open>index\<close> starting at 0: the first position that holds the address, and 0 when none
  does.
\<close>

fun memberIndexFrom :: "address list \<Rightarrow> address \<Rightarrow> uint64 \<Rightarrow> uint64" where
  "memberIndexFrom [] sender i = 0"
| "memberIndexFrom (m # ms) sender i = (if m = sender then i else memberIndexFrom ms sender (i + 1))"

definition indexToSubmit :: "uint64 \<Rightarrow> uint64 \<Rightarrow> uint64" where
  "indexToSubmit blockNumber count = (blockNumber div BlocksPerTurn) mod count"

text \<open>
  \<open>if stale { errs = append(errs, t.updateX(messenger, blockNumber, opts)) }\<close>: the
  accumulator holds \<open>errs\<close>, the events so far and the shared \<open>opts\<close>.
\<close>

definition relayIf ::
    "price_env \<Rightarrow> uint64 \<Rightarrow> l2_target
       \<Rightarrow> error option list \<times> event list \<times> transact_opts
       \<Rightarrow> error option list \<times> event list \<times> transact_opts" where
  "relayIf env blockNumber target acc =
     (case acc of
        (errs, evs, opts) \<Rightarrow>
          if rateStale env target
          then (case update env target blockNumber opts of
                  (err, opts') \<Rightarrow> (errs @ [err], evs @ [UpdateRate target blockNumber], opts'))
          else (errs, evs, opts))"

definition updateL2Prices :: "price_env \<Rightarrow> network_state \<Rightarrow> (error option \<times> event list) outcome" where
  "updateL2Prices env state =
     (case errors_Join (bindingErrors env) of
        Some err \<Rightarrow> Returns (Some err, [])
      | None \<Rightarrow>
          if filter (configured env) allTargets = [] then Returns (None, [])
          else
            (case GetTransactor env of
               Inl err \<Rightarrow> Returns (Some (Wrapf ''Failed getting transactor'' err), [])
             | Inr opts \<Rightarrow>
                 (case QueryStale env of
                    Some err \<Rightarrow> Returns (Some (Wrapf ''error checking if rates are stale'' err), [])
                  | None \<Rightarrow>
                      if \<not> (rateStale env Optimism \<or> rateStale env Polygon \<or> rateStale env Arbitrum
                             \<or> rateStale env ZkSyncEra \<or> rateStale env Base)
                      then Returns (None, [])
                      else
                        let count = (word_of_nat (length (OracleDaoMemberDetails state)) :: uint64);
                            index = memberIndexFrom (OracleDaoMemberDetails state) (From opts) 0;
                            blockNumber = ElBlockNumber state
                        in if count = 0 then Panics
                           else if index = indexToSubmit blockNumber count
                           then
                             (case relayIf env blockNumber Base
                                    (relayIf env blockNumber ZkSyncEra
                                      (relayIf env blockNumber Arbitrum
                                        (relayIf env blockNumber Polygon
                                          (relayIf env blockNumber Optimism ([], [], opts))))) of
                                (errs, evs, opts') \<Rightarrow> Returns (errors_Join errs, evs))
                           else Returns (None, []))))"

text \<open>
  The relay step in the words of its description: each stale target, in order, is
  attempted with the options the attempts before it left, whatever they returned, and
  the errors are joined.
\<close>

fun attemptEach ::
    "price_env \<Rightarrow> uint64 \<Rightarrow> l2_target list \<Rightarrow> transact_opts \<Rightarrow> (l2_target \<times> error option) list" where
  "attemptEach env blockNumber [] opts = []"
| "attemptEach env blockNumber (target # targets) opts =
     (target, fst (update env target blockNumber opts))
       # attemptEach env blockNumber targets (snd (update env target blockNumber opts))"

subsection \<open>\<open>SubmitRplPrice.Run\<close>\<close>

record price_run_report =
  priceReturned :: "error option"
  relayEvents :: "event list"
  priceBackground :: "event list outcome option"

definition SubmitRplPrice_Run :: "price_env \<Rightarrow> bool \<Rightarrow> network_state \<Rightarrow> price_run_report outcome" where
  "SubmitRplPrice_Run env isRunning state =
     (if \<not> SubmitPricesEnabled state
      then Returns \<lparr>priceReturned = None, relayEvents = [], priceBackground = None\<rparr>
      else
        (case updateL2Prices env state of
           Panics \<Rightarrow> Panics
         | ImplementationDependent \<Rightarrow> ImplementationDependent
         | Returns (l2err, l2evs) \<Rightarrow>
             let blockNumber = LatestReportablePricesBlock state;
                 pricesBlock = PricesBlock state;
                 done = (\<lambda>r. Returns \<lparr>priceReturned = r, relayEvents = l2evs, priceBackground = None\<rparr>)
             in if blockNumber \<le> pricesBlock then done None
                else
                  (case HeaderByNumber env (uint blockNumber) of
                     Inl err \<Rightarrow> done (Some err)
                   | Inr hdr \<Rightarrow>
                       let eth2Config = BeaconConfig state;
                           timeSinceGenesis = sint (Time hdr) - sint (GenesisTime eth2Config)
                       in if timeSinceGenesis < 0 then ImplementationDependent
                          else if SecondsPerSlot eth2Config = 0 \<or> SlotsPerEpoch eth2Config = 0 then Panics
                          else
                            let slotNumber = word_of_int timeSinceGenesis div SecondsPerSlot eth2Config;
                                targetEpoch = slotNumber div SlotsPerEpoch eth2Config
                            in (case GetBeaconHead (beacon env) of
                                  Inl err \<Rightarrow> done (Some err)
                                | Inr finalizedEpoch \<Rightarrow>
                                    if targetEpoch > finalizedEpoch then done None
                                    else if isRunning then done None
                                    else Returns \<lparr>priceReturned = None, relayEvents = l2evs,
                                           priceBackground = Some (priceReport env blockNumber)\<rparr>))))"

section \<open>The running flag when calls interleave\<close>

text \<open>
  Every access to \<open>isRunning\<close> is made with the task's mutex held, so the runs of two
  calls are interleavings of their critical sections. Of one call of \<open>Run\<close> these are:
  \<^item> \<open>CheckGuard\<close>, lines 123-129: with the lock held, return when the flag is set;
  \<^item> \<open>StartGoroutine\<close>, lines 131-197 and \<open>go func()\<close> in \<open>generateTree\<close>: no lock
    is held, and the flag is not written;
  \<^item> \<open>SetRunning\<close>, lines 250-252, the first statement of the goroutine;
  \<^item> \<open>ClearRunning\<close>, lines 267-269 or \<open>handleError\<close>, its last.
\<close>

datatype call_state = AtGuard | PastGuard | Started | InFlight | Finished | Skipped

record flight =
  isRunningFlag :: bool
  calls :: "call_state list"

datatype action = CheckGuard nat | StartGoroutine nat | SetRunning nat | ClearRunning nat

definition move :: "flight \<Rightarrow> nat \<Rightarrow> call_state \<Rightarrow> call_state \<Rightarrow> bool \<Rightarrow> flight option" where
  "move s i was becomes flag =
     (if i < length (calls s) \<and> calls s ! i = was
      then Some \<lparr>isRunningFlag = flag, calls = (calls s)[i := becomes]\<rparr>
      else None)"

fun step :: "action \<Rightarrow> flight \<Rightarrow> flight option" where
  "step (CheckGuard i) s =
     (if isRunningFlag s then move s i AtGuard Skipped (isRunningFlag s)
      else move s i AtGuard PastGuard (isRunningFlag s))"
| "step (StartGoroutine i) s = move s i PastGuard Started (isRunningFlag s)"
| "step (SetRunning i) s = move s i Started InFlight True"
| "step (ClearRunning i) s = move s i InFlight Finished False"

fun execute :: "action list \<Rightarrow> flight \<Rightarrow> flight option" where
  "execute [] s = Some s"
| "execute (a # rest) s = (case step a s of None \<Rightarrow> None | Some s' \<Rightarrow> execute rest s')"

definition inFlight :: "flight \<Rightarrow> nat" where
  "inFlight s = length (filter (\<lambda>c. c = InFlight) (calls s))"

definition twoCalls :: flight where
  "twoCalls = \<lparr>isRunningFlag = False, calls = [AtGuard, AtGuard]\<rparr>"

section \<open>A concrete chain and node\<close>

text \<open>
  A small world on which the definitions are evaluated: twelve-second slots, 32 slots
  per epoch, an interval of 480 seconds that has passed twice at slot 100, slots 126 and
  127 missed, and a chain storage on which every flag is set.
\<close>

definition exampleConfig :: beacon_config where
  "exampleConfig = \<lparr>GenesisTime = 1000, SecondsPerSlot = 12, SlotsPerEpoch = 32\<rparr>"

definition exampleState :: network_state where
  "exampleState =
     \<lparr>IntervalStart = 1240, IntervalDuration = 480, RewardIndex = 7,
      BeaconConfig = exampleConfig, BeaconSlotNumber = 100, ElBlockNumber = 160,
      SubmitPricesEnabled = True, LatestReportablePricesBlock = 150, PricesBlock = 100,
      OracleDaoMemberDetails = [10, 11, 12, 13]\<rparr>"

definition exampleBeacon :: "uint64 \<Rightarrow> beacon_client" where
  "exampleBeacon finalizedEpoch =
     \<lparr>GetBeaconHead = Inr finalizedEpoch,
      GetBeaconBlock = (\<lambda>slot. if slot = 125 then BlockFound 9000 else BlockMissing)\<rparr>"

definition exampleFile :: rewards_file where
  "exampleFile =
     \<lparr>GetHeader = \<lparr>Index = 7, IntervalsPassed = 2, MerkleRoot = ''0x00''\<rparr>,
      MinipoolPerformanceFileCID = []\<rparr>"

text \<open>A store with no file, and one whose rewards file was generated for two intervals.\<close>

definition emptyStore :: artifact_store where
  "emptyStore =
     \<lparr>files = (\<lambda>p. NotExist),
      DeserializeRewardsFile = (\<lambda>b. if b = [2] then Inr exampleFile else Inl (Errorf ''invalid''))\<rparr>"

definition cachedStore :: artifact_store where
  "cachedStore =
     \<lparr>files = (\<lambda>p. if p = ''rewards.json'' then Holds [2] else NotExist),
      DeserializeRewardsFile = (\<lambda>b. if b = [2] then Inr exampleFile else Inl (Errorf ''invalid''))\<rparr>"

definition exampleEnv :: "uint64 \<Rightarrow> artifact_store \<Rightarrow> rewards_env" where
  "exampleEnv finalizedEpoch store =
     \<lparr>beacon = exampleBeacon finalizedEpoch,
      HeaderByNumber = (\<lambda>n. Inr \<lparr>Number = word_of_int n, Time = 2800\<rparr>),
      GetAddress = 10,
      chain = \<lparr>Query = None, GetBool = (\<lambda>key. True)\<rparr>,
      RewardsMode_Generate = False,
      GetStateForSlot = (\<lambda>slot. Inr exampleState),
      NewRewardsPool = None,
      GetRewardsTreePath = (\<lambda>index. ''rewards.json''),
      GetMinipoolPerformancePath = (\<lambda>index. ''performance.json''),
      RewardsTreeIpfsExtension = ''.zst'',
      artifacts = store,
      uploadFileToWeb3Storage = (\<lambda>b p. Inr ''cid''),
      submitRewardsSnapshot = (\<lambda>index consensusBlock executionBlock hdr cid n. None),
      GetBestApiClient = None,
      NewNetworkStateManager = None,
      NewTreeGenerator = None,
      GenerateTree = (\<lambda>index slot n. Inr exampleFile),
      SerializeMinipoolPerformanceFile = (\<lambda>f. Inr [1]),
      Serialize = (\<lambda>f. Inr [2]),
      os_WriteFile = (\<lambda>p b. None)\<rparr>"

text \<open>
  A price task whose node is the member at position 2, with three stale relay targets
  of which the second fails, and with a price of 5 for block 150.
\<close>

definition examplePriceEnv :: "(bytes \<Rightarrow> bool) \<Rightarrow> price_env" where
  "examplePriceEnv recorded =
     \<lparr>beacon = exampleBeacon 5,
      HeaderByNumber = (\<lambda>n. Inr \<lparr>Number = word_of_int n, Time = 2800\<rparr>),
      GetAddress = 12,
      chain = \<lparr>Query = None, GetBool = recorded\<rparr>,
      MessengerAddress = (\<lambda>target. if target = Base then [] else ''0x01''),
      NewMessenger = (\<lambda>target. None),
      GetTransactor = Inr \<lparr>From = 12, Value = 0, GasFeeCap = 0, GasTipCap = 0, GasLimit = 0\<rparr>,
      QueryStale = None,
      IsRateStale = (\<lambda>target. target \<noteq> ZkSyncEra),
      update = (\<lambda>target blockNumber opts.
                  (if target = Polygon then Some (Errorf ''simulation failed'') else None,
                   opts\<lparr>GasLimit := GasLimit opts + 1\<rparr>)),
      getRplTwap = (\<lambda>blockNumber. Inr 5),
      submitRplPrice = (\<lambda>blockNumber rplPrice. None)\<rparr>"

lemma errors_Join_Nil: "errors_Join [] = None"
  by (simp add: errors_Join_def)


section \<open>Properties of the snapshot resolver\<close>























section \<open>Properties of interval detection\<close>







text \<open>
  Claim C6 does not hold of \<open>Run\<close>: the division by the interval duration is not
  guarded. A zero duration makes the division panic, which \<open>Run\<close> does not turn into an
  error it returns, and a negative duration is divided by.
\<close>

theorem zero_interval_panics:
  "intervalsPassed 1713510000 1713420000 0 = Panics
   \<and> Run (exampleEnv 5 emptyStore) False True (exampleState\<lparr>IntervalDuration := 0\<rparr>) 0
       = Some Panics
   \<and> intervalsPassed 1713510000 1713420000 (- 86400) = Returns (- 1)"
  by (simp add: intervalsPassed_def signed_divide_int_def Run_def runCheckpoint_def exampleState_def)

section \<open>Properties of the cached rewards file\<close>

text \<open>
  Claim C7. The validity check of the cached rewards file is true exactly when a file
  is at the path, its bytes deserialize, and the \<open>IntervalsPassed\<close> of its header is
  \<open>n\<close>. An absent file and a file that does not deserialize make it false; it returns a
  boolean and has no error to fail the task with. A file generated for \<open>n\<close> intervals is
  valid against \<open>n\<close> and invalid against \<open>n + 1\<close>. When the check is false, \<open>Run\<close>
  starts the generation of the tree and returns \<open>nil\<close>.
\<close>

theorem isExistingFileValid_iff:
  "(isExistingFileValid store rewardsTreePath n
      \<longleftrightarrow> (\<exists>fileBytes proofWrapper.
             files store rewardsTreePath = Holds fileBytes
           \<and> DeserializeRewardsFile store fileBytes = Inr proofWrapper
           \<and> IntervalsPassed (GetHeader proofWrapper) = n))
   \<and> (files store rewardsTreePath = NotExist \<longrightarrow> \<not> isExistingFileValid store rewardsTreePath n)
   \<and> (\<forall>fileBytes err. files store rewardsTreePath = Holds fileBytes
          \<and> DeserializeRewardsFile store fileBytes = Inl err
          \<longrightarrow> \<not> isExistingFileValid store rewardsTreePath n)
   \<and> (\<forall>fileBytes proofWrapper. files store rewardsTreePath = Holds fileBytes
          \<and> DeserializeRewardsFile store fileBytes = Inr proofWrapper
          \<and> IntervalsPassed (GetHeader proofWrapper) = n
          \<longrightarrow> isExistingFileValid store rewardsTreePath n
            \<and> \<not> isExistingFileValid store rewardsTreePath (n + 1))
   \<and> (\<forall>env nodeTrusted state k snapshotBeaconBlock elBlockIndex.
          artifacts env = store \<and> GetRewardsTreePath env (RewardIndex state) = rewardsTreePath
          \<and> word_of_int k = n \<and> NewRewardsPool env = None
          \<and> \<not> isExistingFileValid store rewardsTreePath n
          \<longrightarrow> runGuarded env False nodeTrusted state k snapshotBeaconBlock elBlockIndex
                = Some (Returns \<lparr>returned = None, foreground = [],
                    background = Some (generateTree env k nodeTrusted (RewardIndex state)
                      snapshotBeaconBlock elBlockIndex rewardsTreePath
                      (rewardsTreePath @ RewardsTreeIpfsExtension env)
                      (GetMinipoolPerformancePath env (RewardIndex state))
                      (GetMinipoolPerformancePath env (RewardIndex state)
                         @ RewardsTreeIpfsExtension env))\<rparr>))"
proof -
  have regenerate:
    "runGuarded env False nodeTrusted state k snapshotBeaconBlock elBlockIndex
       = Some (Returns \<lparr>returned = None, foreground = [],
           background = Some (generateTree env k nodeTrusted (RewardIndex state)
             snapshotBeaconBlock elBlockIndex rewardsTreePath
             (rewardsTreePath @ RewardsTreeIpfsExtension env)
             (GetMinipoolPerformancePath env (RewardIndex state))
             (GetMinipoolPerformancePath env (RewardIndex state)
                @ RewardsTreeIpfsExtension env))\<rparr>)"
    if "artifacts env = store \<and> GetRewardsTreePath env (RewardIndex state) = rewardsTreePath
          \<and> word_of_int k = n \<and> NewRewardsPool env = None
          \<and> \<not> isExistingFileValid store rewardsTreePath n"
    for env :: rewards_env and nodeTrusted and state :: network_state
      and k snapshotBeaconBlock elBlockIndex
    using that by (auto simp: runGuarded_def Let_def)
  have check: "(isExistingFileValid store rewardsTreePath n
      \<longleftrightarrow> (\<exists>fileBytes proofWrapper.
             files store rewardsTreePath = Holds fileBytes
           \<and> DeserializeRewardsFile store fileBytes = Inr proofWrapper
           \<and> IntervalsPassed (GetHeader proofWrapper) = n))
   \<and> (files store rewardsTreePath = NotExist \<longrightarrow> \<not> isExistingFileValid store rewardsTreePath n)
   \<and> (\<forall>fileBytes err. files store rewardsTreePath = Holds fileBytes
          \<and> DeserializeRewardsFile store fileBytes = Inl err
          \<longrightarrow> \<not> isExistingFileValid store rewardsTreePath n)
   \<and> (\<forall>fileBytes proofWrapper. files store rewardsTreePath = Holds fileBytes
          \<and> DeserializeRewardsFile store fileBytes = Inr proofWrapper
          \<and> IntervalsPassed (GetHeader proofWrapper) = n
          \<longrightarrow> isExistingFileValid store rewardsTreePath n
            \<and> \<not> isExistingFileValid store rewardsTreePath (n + 1))"
    by (auto simp: isExistingFileValid_def split: file_entry.splits sum.splits)
  show ?thesis
    using check regenerate by blast
qed

text \<open>
  Witness for C7: the stored file was generated for 2 intervals; it is valid against 2
  and invalid against 3, and a store without the file has nothing valid.
\<close>

theorem isExistingFileValid_iff_witness:
  "isExistingFileValid cachedStore ''rewards.json'' 2
   \<and> \<not> isExistingFileValid cachedStore ''rewards.json'' 3
   \<and> \<not> isExistingFileValid emptyStore ''rewards.json'' 2"
proof -
  have "files cachedStore ''rewards.json'' = Holds [2]
        \<and> DeserializeRewardsFile cachedStore [2] = Inr exampleFile
        \<and> IntervalsPassed (GetHeader exampleFile) = 2"
    by (simp add: cachedStore_def exampleFile_def)
  then have "isExistingFileValid cachedStore ''rewards.json'' 2
             \<and> \<not> isExistingFileValid cachedStore ''rewards.json'' (2 + 1)"
    using isExistingFileValid_iff [of cachedStore "''rewards.json''" 2] by blast
  moreover have "\<not> isExistingFileValid emptyStore ''rewards.json'' 2"
    using isExistingFileValid_iff [of emptyStore "''rewards.json''" 2] by (simp add: emptyStore_def)
  ultimately show ?thesis
    by simp
qed

section \<open>Properties of the running flag\<close>

text \<open>A call that finds the flag set returns \<open>nil\<close> and does nothing.\<close>

lemma runGuarded_skips_when_running:
  "runGuarded env True nodeTrusted state n snapshotBeaconBlock elBlockIndex
     = Some (Returns \<lparr>returned = None, foreground = [], background = None\<rparr>)"
  by (simp add: runGuarded_def returnsAtOnce_def)

text \<open>
  Claim C3 does not hold of the code: the flag is tested in one critical section and
  set in another, which the goroutine enters later. Two calls that both test the flag
  before either goroutine has set it both start a generation; so do a call and the call
  of the next tick when the first goroutine has not yet set the flag.
\<close>

theorem two_generations_in_flight:
  "execute [CheckGuard 0, CheckGuard 1, StartGoroutine 0, StartGoroutine 1, SetRunning 0, SetRunning 1]
     twoCalls = Some \<lparr>isRunningFlag = True, calls = [InFlight, InFlight]\<rparr>
   \<and> execute [CheckGuard 0, StartGoroutine 0, CheckGuard 1, StartGoroutine 1, SetRunning 0, SetRunning 1]
       twoCalls = Some \<lparr>isRunningFlag = True, calls = [InFlight, InFlight]\<rparr>
   \<and> inFlight \<lparr>isRunningFlag = True, calls = [InFlight, InFlight]\<rparr> = 2"
  by (simp add: twoCalls_def move_def inFlight_def)

section \<open>Properties of the relay step\<close>

lemma indexToSubmit_unat:
  "unat (indexToSubmit blockNumber count) = (unat blockNumber div 75) mod unat count"
  by (simp add: indexToSubmit_def BlocksPerTurn_def unat_mod unat_div)

lemma memberIndexFrom_spec:
  assumes "sender \<in> set members" and "unat i + length members \<le> 2 ^ 64"
  shows "unat i \<le> unat (memberIndexFrom members sender i)
       \<and> unat (memberIndexFrom members sender i) - unat i < length members
       \<and> members ! (unat (memberIndexFrom members sender i) - unat i) = sender
       \<and> (\<forall>j. j < unat (memberIndexFrom members sender i) - unat i \<longrightarrow> members ! j \<noteq> sender)"
  using assms
proof (induction members arbitrary: i)
  case Nil
  then show ?case by simp
next
  case (Cons m ms)
  show ?case
  proof (cases "m = sender")
    case True
    then show ?thesis by simp
  next
    case False
    then have mem: "sender \<in> set ms"
      using Cons.prems(1) by simp
    have lt: "unat i + 1 < 2 ^ 64"
      using Cons.prems(2) mem by (cases ms) auto
    then have ui: "unat (i + 1) = unat i + 1"
      using unat_add_lem [of i 1] by simp
    have "unat (i + 1) + length ms \<le> 2 ^ 64"
      using Cons.prems(2) ui by simp
    note IH = Cons.IH [OF mem this]
    define k where "k = unat (memberIndexFrom ms sender (i + 1))"
    have k: "unat i + 1 \<le> k" "k - (unat i + 1) < length ms" "ms ! (k - (unat i + 1)) = sender"
      "\<forall>j. j < k - (unat i + 1) \<longrightarrow> ms ! j \<noteq> sender"
      using IH by (simp_all add: k_def ui)
    have eq: "memberIndexFrom (m # ms) sender i = memberIndexFrom ms sender (i + 1)"
      using False by simp
    have sub: "k - unat i = Suc (k - (unat i + 1))"
      using k(1) by simp
    show ?thesis
      unfolding eq k_def [symmetric] sub
      using k False by (auto simp: nth_Cons' less_Suc_eq_0_disj)
  qed
qed

lemma relayIf_stale:
  "rateStale env target \<Longrightarrow>
     relayIf env blockNumber target (errs, evs, opts)
       = (errs @ [fst (update env target blockNumber opts)],
          evs @ [UpdateRate target blockNumber],
          snd (update env target blockNumber opts))"
  by (simp add: relayIf_def split: prod.splits)

lemma relayIf_fresh:
  "\<not> rateStale env target \<Longrightarrow> relayIf env blockNumber target acc = acc"
  by (simp add: relayIf_def split: prod.splits)

lemma relay_fold:
  "foldl (\<lambda>acc target. relayIf env blockNumber target acc) (errs, evs, opts) targets
     = (errs @ map snd (attemptEach env blockNumber (filter (rateStale env) targets) opts),
        evs @ map (\<lambda>target. UpdateRate target blockNumber) (filter (rateStale env) targets),
        foldl (\<lambda>opts' target. snd (update env target blockNumber opts')) opts
          (filter (rateStale env) targets))"
proof (induction targets arbitrary: errs evs opts)
  case Nil
  then show ?case by simp
next
  case (Cons target targets)
  show ?case
  proof (cases "rateStale env target")
    case True
    then show ?thesis
      by (simp add: relayIf_stale Cons.IH)
  next
    case False
    then show ?thesis
      by (simp add: relayIf_fresh Cons.IH)
  qed
qed

lemma relay_all:
  "relayIf env blockNumber Base
     (relayIf env blockNumber ZkSyncEra
       (relayIf env blockNumber Arbitrum
         (relayIf env blockNumber Polygon
           (relayIf env blockNumber Optimism ([], [], opts)))))
     = (map snd (attemptEach env blockNumber (filter (rateStale env) allTargets) opts),
        map (\<lambda>target. UpdateRate target blockNumber) (filter (rateStale env) allTargets),
        foldl (\<lambda>opts' target. snd (update env target blockNumber opts')) opts
          (filter (rateStale env) allTargets))"
proof -
  have "relayIf env blockNumber Base
     (relayIf env blockNumber ZkSyncEra
       (relayIf env blockNumber Arbitrum
         (relayIf env blockNumber Polygon
           (relayIf env blockNumber Optimism ([], [], opts)))))
     = foldl (\<lambda>acc target. relayIf env blockNumber target acc) ([], [], opts) allTargets"
    by (simp add: allTargets_def)
  then show ?thesis
    by (simp only: relay_fold append_Nil)
qed

lemma attemptEach_targets: "map fst (attemptEach env blockNumber targets opts) = targets"
  by (induction targets arbitrary: opts) simp_all

lemma no_stale_targets:
  "filter (rateStale env) allTargets = [] \<longleftrightarrow>
     \<not> (rateStale env Optimism \<or> rateStale env Polygon \<or> rateStale env Arbitrum
        \<or> rateStale env ZkSyncEra \<or> rateStale env Base)"
  by (simp add: allTargets_def filter_empty_conv)

lemma unconfigured_not_stale:
  "filter (configured env) allTargets = [] \<Longrightarrow> filter (rateStale env) allTargets = []"
  by (auto simp: filter_empty_conv rateStale_def)

lemma relay_events_only_for_leader:
  assumes "GetTransactor env = Inr opts"
      and "updateL2Prices env state = Returns (r, evs)"
      and "evs \<noteq> []"
  shows "memberIndexFrom (OracleDaoMemberDetails state) (From opts) 0
           = indexToSubmit (ElBlockNumber state)
               (word_of_nat (length (OracleDaoMemberDetails state)))"
  using assms unfolding updateL2Prices_def Let_def
  by (auto split: option.splits if_splits)

lemma relay_noop_when_not_leader:
  assumes "GetTransactor env = Inr opts"
      and "errors_Join (bindingErrors env) = None"
      and "QueryStale env = None"
      and "word_of_nat (length (OracleDaoMemberDetails state)) \<noteq> (0::uint64)"
      and "memberIndexFrom (OracleDaoMemberDetails state) (From opts) 0
             \<noteq> indexToSubmit (ElBlockNumber state)
                 (word_of_nat (length (OracleDaoMemberDetails state)))"
  shows "updateL2Prices env state = Returns (None, [])"
  using assms unfolding updateL2Prices_def Let_def
  by simp

lemma count_nonzero:
  assumes "members \<noteq> []" and "length members < 2 ^ 64"
  shows "(word_of_nat (length members) :: uint64) \<noteq> 0"
    and "unat (word_of_nat (length members) :: uint64) = length members"
proof -
  show u: "unat (word_of_nat (length members) :: uint64) = length members"
    using assms(2) by (simp add: unat_of_nat take_bit_nat_eq_self)
  show "(word_of_nat (length members) :: uint64) \<noteq> 0"
  proof
    assume "(word_of_nat (length members) :: uint64) = 0"
    then have "unat (word_of_nat (length members) :: uint64) = 0"
      by simp
    then show False
      using u assms(1) by simp
  qed
qed

text \<open>
  Claim C8. For a non-empty member list the selected index is
  \<open>(blockNumber / 75) mod memberCount\<close>; with four members blocks 0 to 74 select 0,
  blocks 75 to 149 select 1 and blocks 300 to 374 select 0 again. The relay step makes
  an update call only when the node's index equals the selected one, and otherwise does
  nothing, stale targets or not. The node's index is the first position of its address
  in the member list.
\<close>

theorem relay_leader_rotation:
  assumes nonempty: "OracleDaoMemberDetails state \<noteq> []"
      and fits: "length (OracleDaoMemberDetails state) < 2 ^ 64"
  shows "let members = OracleDaoMemberDetails state;
             count = (word_of_nat (length members) :: uint64);
             blockNumber = ElBlockNumber state
         in unat (indexToSubmit blockNumber count) = (unat blockNumber div 75) mod length members
          \<and> (\<forall>b. (unat b \<le> 74 \<longrightarrow> indexToSubmit b 4 = 0)
                \<and> (75 \<le> unat b \<and> unat b \<le> 149 \<longrightarrow> indexToSubmit b 4 = 1)
                \<and> (300 \<le> unat b \<and> unat b \<le> 374 \<longrightarrow> indexToSubmit b 4 = 0))
          \<and> (\<forall>env opts r evs.
                GetTransactor env = Inr opts \<and> updateL2Prices env state = Returns (r, evs) \<and> evs \<noteq> []
                \<longrightarrow> memberIndexFrom members (From opts) 0 = indexToSubmit blockNumber count)
          \<and> (\<forall>env opts.
                GetTransactor env = Inr opts \<and> errors_Join (bindingErrors env) = None
                \<and> QueryStale env = None
                \<and> memberIndexFrom members (From opts) 0 \<noteq> indexToSubmit blockNumber count
                \<longrightarrow> updateL2Prices env state = Returns (None, []))
          \<and> (\<forall>sender. sender \<in> set members
                \<longrightarrow> unat (memberIndexFrom members sender 0) < length members
                  \<and> members ! unat (memberIndexFrom members sender 0) = sender)"
proof -
  note count = count_nonzero [OF nonempty fits]
  have examples: "(unat b \<le> 74 \<longrightarrow> indexToSubmit b 4 = 0)
                \<and> (75 \<le> unat b \<and> unat b \<le> 149 \<longrightarrow> indexToSubmit b 4 = 1)
                \<and> (300 \<le> unat b \<and> unat b \<le> 374 \<longrightarrow> indexToSubmit b 4 = 0)" for b :: uint64
  proof -
    have u: "unat (indexToSubmit b 4) = (unat b div 75) mod 4"
      by (simp add: indexToSubmit_unat)
    have "unat b \<le> 74 \<Longrightarrow> unat b div 75 = 0"
      by simp
    moreover have "75 \<le> unat b \<and> unat b \<le> 149 \<Longrightarrow> unat b div 75 = 1"
      by (intro div_nat_eqI) simp_all
    moreover have "300 \<le> unat b \<and> unat b \<le> 374 \<Longrightarrow> unat b div 75 = 4"
      by (intro div_nat_eqI) simp_all
    ultimately have "(unat b \<le> 74 \<longrightarrow> unat (indexToSubmit b 4) = 0)
                \<and> (75 \<le> unat b \<and> unat b \<le> 149 \<longrightarrow> unat (indexToSubmit b 4) = 1)
                \<and> (300 \<le> unat b \<and> unat b \<le> 374 \<longrightarrow> unat (indexToSubmit b 4) = 0)"
      using u by simp
    then show ?thesis
      by (simp add: word_unat_eq_iff)
  qed
  have member: "unat (memberIndexFrom (OracleDaoMemberDetails state) sender 0)
                    < length (OracleDaoMemberDetails state)
                  \<and> OracleDaoMemberDetails state
                      ! unat (memberIndexFrom (OracleDaoMemberDetails state) sender 0) = sender"
    if "sender \<in> set (OracleDaoMemberDetails state)" for sender
    using memberIndexFrom_spec [OF that, of 0] fits by simp
  show ?thesis
    unfolding Let_def
    using examples member count relay_events_only_for_leader relay_noop_when_not_leader
    by (simp add: indexToSubmit_unat) blast
qed

text \<open>
  Witness for C8: with the four members of the example, block 160 selects index 2, and
  the ends of the three windows of the specification select 0, 1 and 0.
\<close>

theorem relay_leader_rotation_witness:
  "indexToSubmit 160 4 = 2 \<and> indexToSubmit 74 4 = 0 \<and> indexToSubmit 75 4 = 1
   \<and> indexToSubmit 149 4 = 1 \<and> indexToSubmit 300 4 = 0 \<and> indexToSubmit 374 4 = 0"
proof -
  have nonempty: "OracleDaoMemberDetails exampleState \<noteq> []"
    and fits: "length (OracleDaoMemberDetails exampleState) < 2 ^ 64"
    by (simp_all add: exampleState_def)
  note t = relay_leader_rotation [OF nonempty fits, unfolded Let_def]
  have "unat (indexToSubmit 160 4) = 2"
    using t [THEN conjunct1] by (simp add: exampleState_def)
  then have "indexToSubmit 160 4 = 2"
    by (simp add: word_unat_eq_iff)
  moreover note ex = t [THEN conjunct2, THEN conjunct1]
  moreover have "indexToSubmit 74 4 = 0" "indexToSubmit 75 4 = 1" "indexToSubmit 149 4 = 1"
    "indexToSubmit 300 4 = 0" "indexToSubmit 374 4 = 0"
    using ex [THEN spec, of 74] ex [THEN spec, of 75] ex [THEN spec, of 149]
      ex [THEN spec, of 300] ex [THEN spec, of 374]
    by simp_all
  ultimately show ?thesis
    by simp
qed

text \<open>
  Claim C9. When the node is the rotation leader (bindings, transactor and the stale
  query having succeeded), the relay step attempts every stale target, in order and
  whatever the attempts before it returned, and reports the join of all their errors:
  it computes what \<open>attemptEach\<close> describes on the stale targets.
\<close>

theorem relay_attempts_every_stale_target:
  assumes bindings: "errors_Join (bindingErrors env) = None"
      and transactor: "GetTransactor env = Inr opts"
      and query: "QueryStale env = None"
      and members: "word_of_nat (length (OracleDaoMemberDetails state)) \<noteq> (0::uint64)"
      and leader: "memberIndexFrom (OracleDaoMemberDetails state) (From opts) 0
                     = indexToSubmit (ElBlockNumber state)
                         (word_of_nat (length (OracleDaoMemberDetails state)))"
  shows "let staleTargets = filter (rateStale env) allTargets;
             results = attemptEach env (ElBlockNumber state) staleTargets opts
         in updateL2Prices env state
              = Returns (errors_Join (map snd results),
                         map (\<lambda>target. UpdateRate target (ElBlockNumber state)) staleTargets)
          \<and> map fst results = staleTargets"
proof (cases "filter (rateStale env) allTargets = []")
  case True
  then have none: "\<not> (rateStale env Optimism \<or> rateStale env Polygon \<or> rateStale env Arbitrum
        \<or> rateStale env ZkSyncEra \<or> rateStale env Base)"
    unfolding no_stale_targets .
  have "updateL2Prices env state = Returns (None, [])"
    unfolding updateL2Prices_def using bindings transactor query none
    by (simp del: de_Morgan_disj)
  then show ?thesis
    using True by (simp add: errors_Join_def)
next
  case False
  then have conf: "filter (configured env) allTargets \<noteq> []"
    using unconfigured_not_stale by blast
  from False have some: "rateStale env Optimism \<or> rateStale env Polygon \<or> rateStale env Arbitrum
        \<or> rateStale env ZkSyncEra \<or> rateStale env Base"
    unfolding no_stale_targets by simp
  have "updateL2Prices env state
          = Returns (errors_Join (map snd (attemptEach env (ElBlockNumber state)
                       (filter (rateStale env) allTargets) opts)),
                     map (\<lambda>target. UpdateRate target (ElBlockNumber state))
                       (filter (rateStale env) allTargets))"
    unfolding updateL2Prices_def using bindings transactor query members leader conf some
    by (simp add: Let_def relay_all)
  then show ?thesis
    by (simp add: Let_def attemptEach_targets)
qed

text \<open>
  Witness for C9: Optimism, Polygon and Arbitrum are stale and the update of Polygon
  fails; all three are attempted and the one error is reported.
\<close>

theorem relay_attempts_every_stale_target_witness:
  "updateL2Prices (examplePriceEnv (\<lambda>key. True)) exampleState
     = Returns (Some (joinError [Errorf ''simulation failed'']),
                [UpdateRate Optimism 160, UpdateRate Polygon 160, UpdateRate Arbitrum 160])"
proof -
  let ?env = "examplePriceEnv (\<lambda>key. True)"
  let ?opts = "\<lparr>From = 12, Value = 0, GasFeeCap = 0, GasTipCap = 0, GasLimit = 0\<rparr>"
  have bindings: "errors_Join (bindingErrors ?env) = None"
    by (simp add: errors_Join_def bindingErrors_def allTargets_def configured_def examplePriceEnv_def)
  have transactor: "GetTransactor ?env = Inr ?opts"
    by (simp add: examplePriceEnv_def)
  have query: "QueryStale ?env = None"
    by (simp add: examplePriceEnv_def)
  have members: "word_of_nat (length (OracleDaoMemberDetails exampleState)) \<noteq> (0::uint64)"
    by (simp add: exampleState_def)
  have leader: "memberIndexFrom (OracleDaoMemberDetails exampleState) (From ?opts) 0
                  = indexToSubmit (ElBlockNumber exampleState)
                      (word_of_nat (length (OracleDaoMemberDetails exampleState)))"
    by (simp add: exampleState_def indexToSubmit_def BlocksPerTurn_def)
  have stale: "filter (rateStale ?env) allTargets = [Optimism, Polygon, Arbitrum]"
    by (simp add: allTargets_def rateStale_def configured_def examplePriceEnv_def)
  have bn: "ElBlockNumber exampleState = 160"
    by (simp add: exampleState_def)
  have upd: "update ?env = (\<lambda>target blockNumber opts.
                  (if target = Polygon then Some (Errorf ''simulation failed'') else None,
                   opts\<lparr>GasLimit := GasLimit opts + 1\<rparr>))"
    by (simp add: examplePriceEnv_def)
  from relay_attempts_every_stale_target [OF bindings transactor query members leader]
  show ?thesis
    unfolding Let_def stale bn
    by (simp add: upd errors_Join_def)
qed

section \<open>Properties of the submission record\<close>

lemma priceHandleError_no_submission: "filter isSubmission (priceHandleError err) = []"
  by (simp add: priceHandleError_def isSubmission_def)

text \<open>
  Claim C10. When the price for the target block has been computed and the storage
  has been read, the goroutine of the price task skips the submission exactly when the
  pair of block and price is recorded. Otherwise it calls \<open>submitRplPrice\<close> once, with
  the price just computed, whether or not some price was recorded for the block before;
  that earlier record only adds a line to the info log, and no error is reported for it.
\<close>

theorem price_resubmitted_with_new_value:
  assumes twap: "getRplTwap env blockNumber = Inr rplPrice"
      and specific: "hasSubmittedSpecificBlockPrices (chain env) (GetAddress env) blockNumber rplPrice
                       = Returns (Inr hasSubmittedSpecific)"
      and generic: "hasSubmittedBlockPrices (chain env) (GetAddress env) blockNumber
                       = Returns (Inr hasSubmitted)"
  shows "(hasSubmittedSpecific \<longrightarrow> priceReport env blockNumber = Returns [])
       \<and> (\<not> hasSubmittedSpecific \<longrightarrow>
            (\<exists>evs. priceReport env blockNumber = Returns evs
                 \<and> filter isSubmission evs = [SubmitPrice blockNumber rplPrice]
                 \<and> (submitRplPrice env blockNumber rplPrice = None
                      \<longrightarrow> evs = (if hasSubmitted
                                  then [LogInfo ''Have previously submitted out-of-date prices, trying again...'']
                                  else [])
                                 @ [SubmitPrice blockNumber rplPrice])))"
  using assms
  by (auto simp: priceReport_def isSubmission_def priceHandleError_no_submission
           split: option.splits)

text \<open>
  Witness for C10: the flag for block 150 is set (its key has 85 bytes) and the flag
  for the pair of block 150 and price 5 is not (117 bytes); the price is submitted.
\<close>

theorem price_resubmitted_with_new_value_witness:
  "priceReport (examplePriceEnv (\<lambda>key. length key = 85)) 150
     = Returns [LogInfo ''Have previously submitted out-of-date prices, trying again...'',
                SubmitPrice 150 5]"
proof -
  let ?env = "examplePriceEnv (\<lambda>key. length key = 85)"
  have twap: "getRplTwap ?env 150 = Inr 5"
    by (simp add: examplePriceEnv_def)
  have specific: "hasSubmittedSpecificBlockPrices (chain ?env) (GetAddress ?env) 150 5
                    = Returns (Inr False)"
    by (simp add: hasSubmittedSpecificBlockPrices_def FillBytes_def probe_def examplePriceEnv_def
          SubmissionKey_def bytesOf_def addressBytes_def)
  have generic: "hasSubmittedBlockPrices (chain ?env) (GetAddress ?env) 150 = Returns (Inr True)"
    by (simp add: hasSubmittedBlockPrices_def FillBytes_def probe_def examplePriceEnv_def
          SubmissionKey_def bytesOf_def addressBytes_def)
  have submit: "submitRplPrice ?env 150 5 = None"
    by (simp add: examplePriceEnv_def)
  from price_resubmitted_with_new_value [OF twap specific generic] submit
  show ?thesis
    by auto
qed








end
